theory Spec2Isabelle
  imports Main "HOL-Library.Word" "HOL-Library.Sublist"
begin

section \<open>Go values used by the client package\<close>

subsection \<open>Errors\<close>

text \<open>
  A Go \<open>error\<close> value is \<open>nil\<close> or an error; it is modelled as \<open>error option\<close>, with
  \<open>None\<close> for \<open>nil\<close>. The constructors are the ways the package and its callers build
  errors: \<open>errors.New\<close>, \<open>fmt.Errorf("prefix: %w", err)\<close>, \<open>errors.Join\<close>, and the two
  sentinel errors of package \<open>context\<close>.
\<close>

datatype error =
    New string
  | Errorf string error
  | Joined "error list"
  | DeadlineExceeded
  | Canceled

text \<open>\<open>joinError.Error\<close> separates the messages of its members by a newline.\<close>

fun join_lines :: "string list \<Rightarrow> string" where
  "join_lines [] = []"
| "join_lines [s] = s"
| "join_lines (s # t # ss) = s @ [CHR 0x0A] @ join_lines (t # ss)"

fun Error :: "error \<Rightarrow> string" where
  "Error (New s) = s"
| "Error (Errorf p e) = p @ Error e"
| "Error (Joined es) = join_lines (map Error es)"
| "Error DeadlineExceeded = ''context deadline exceeded''"
| "Error Canceled = ''context canceled''"

text \<open>
  \<open>errors.Is(err, target)\<close>: \<open>err\<close> is \<open>target\<close>, or \<open>target\<close> is found by unwrapping
  \<open>err\<close> (through \<open>%w\<close> and through the members of a joined error).
\<close>

fun errors_Is :: "error \<Rightarrow> error \<Rightarrow> bool" where
  "errors_Is (Errorf p e) t = (Errorf p e = t \<or> errors_Is e t)"
| "errors_Is (Joined es) t = (Joined es = t \<or> list_ex (\<lambda>e. errors_Is e t) es)"
| "errors_Is e t = (e = t)"

text \<open>\<open>errors.Join\<close> drops the \<open>nil\<close> arguments and returns \<open>nil\<close> when none is left.\<close>

definition errors_Join :: "error option list \<Rightarrow> error option" where
  "errors_Join errs =
     (let es = List.map_filter id errs in if es = [] then None else Some (Joined es))"

text \<open>\<open>require.ErrorContains\<close> of the tests: the message contains the substring.\<close>

definition ErrorContains :: "error option \<Rightarrow> string \<Rightarrow> bool" where
  "ErrorContains err s = (case err of None \<Rightarrow> False | Some e \<Rightarrow> sublist s (Error e))"

subsection \<open>Panics\<close>

text \<open>
  A call either returns or panics (a nil pointer dereference, a failed type assertion).
\<close>

datatype 'a outcome = Returns 'a | Panics

section \<open>metrics.go\<close>

text \<open>
  \<open>time.Time\<close> as far as \<open>atomicTime\<close> looks at it: \<open>IsZero\<close> and \<open>UnixNano\<close>.
\<close>

datatype Time = TimeZero | TimeUnix "64 word"

record readerMetrics =
  nRead :: "64 word"
  nWritten :: "64 word"
  lastRead :: "64 word"
  lastWrite :: "64 word"

definition newReaderMetrics :: readerMetrics where
  "newReaderMetrics = \<lparr>nRead = 0, nWritten = 0, lastRead = 0, lastWrite = 0\<rparr>"

definition atomicTime_Store :: "Time \<Rightarrow> 64 word" where
  "atomicTime_Store t = (case t of TimeZero \<Rightarrow> 0 | TimeUnix n \<Rightarrow> n)"

definition atomicTime_Load :: "64 word \<Rightarrow> Time" where
  "atomicTime_Load n = (if n = 0 then TimeZero else TimeUnix n)"

text \<open>Go's \<open>int\<close> is read as a signed 64-bit value.\<close>

definition BytesRead :: "readerMetrics \<Rightarrow> int" where
  "BytesRead s = sint (nRead s)"

definition BytesWritten :: "readerMetrics \<Rightarrow> int" where
  "BytesWritten s = sint (nWritten s)"

text \<open>
  \<open>Read\<close> and \<open>Write\<close> call the wrapped stream first; its result \<open>(n, err)\<close> and the
  value of \<open>time.Now()\<close> are parameters. The count \<open>n\<close> is a Go \<open>int\<close>, 64 bits wide,
  and \<open>atomic.Int64.Add\<close> wraps around.
\<close>

definition Read :: "64 word \<times> error option \<Rightarrow> Time \<Rightarrow> readerMetrics \<Rightarrow> (64 word \<times> error option) \<times> readerMetrics" where
  "Read res now s =
     (case res of (n, err) \<Rightarrow>
        (if err = None
         then ((n, err), s\<lparr>nRead := nRead s + n, lastRead := atomicTime_Store now\<rparr>)
         else ((n, err), s)))"

definition Write :: "64 word \<times> error option \<Rightarrow> Time \<Rightarrow> readerMetrics \<Rightarrow> (64 word \<times> error option) \<times> readerMetrics" where
  "Write res now s =
     (case res of (n, err) \<Rightarrow>
        (if err = None
         then ((n, err), s\<lparr>nWritten := nWritten s + n, lastWrite := atomicTime_Store now\<rparr>)
         else ((n, err), s)))"

text \<open>A session is the sequence of the \<open>Read\<close> and \<open>Write\<close> calls the pipe makes.\<close>

datatype io_call = ReadCall "64 word \<times> error option" Time | WriteCall "64 word \<times> error option" Time

fun io_step :: "io_call \<Rightarrow> readerMetrics \<Rightarrow> readerMetrics" where
  "io_step (ReadCall res now) s = snd (Read res now s)"
| "io_step (WriteCall res now) s = snd (Write res now s)"

fun session :: "io_call list \<Rightarrow> readerMetrics \<Rightarrow> readerMetrics" where
  "session [] s = s"
| "session (c # cs) s = session cs (io_step c s)"

text \<open>
  A call keeps within the counter when the stream reports a count \<open>0 \<le> n\<close>, as
  \<open>io.Reader\<close> and \<open>io.Writer\<close> require, and the sum still fits the signed 64 bits.
\<close>

fun call_fits :: "io_call \<Rightarrow> readerMetrics \<Rightarrow> bool" where
  "call_fits (ReadCall res now) s =
     (snd res \<noteq> None \<or> (0 \<le> sint (fst res) \<and> BytesRead s + sint (fst res) < 2 ^ 63))"
| "call_fits (WriteCall res now) s =
     (snd res \<noteq> None \<or> (0 \<le> sint (fst res) \<and> BytesWritten s + sint (fst res) < 2 ^ 63))"

fun session_fits :: "io_call list \<Rightarrow> readerMetrics \<Rightarrow> bool" where
  "session_fits [] s = True"
| "session_fits (c # cs) s = (call_fits c s \<and> session_fits cs (io_step c s))"

section \<open>Log levels\<close>

text \<open>
  A \<open>slog.Handler\<close> is consulted through \<open>Enabled(ctx, level)\<close> only; it is modelled as
  that function of the level. The handlers of the standard library (\<open>TextHandler\<close>,
  \<open>JSONHandler\<close>) enable every level from their minimum level up.
\<close>

type_synonym Handler = "int \<Rightarrow> bool"

definition LevelDebug :: int where "LevelDebug = - 4"
definition LevelInfo :: int where "LevelInfo = 0"
definition LevelWarn :: int where "LevelWarn = 4"
definition LevelError :: int where "LevelError = 8"

definition level_handler :: "int \<Rightarrow> Handler" where
  "level_handler minLevel = (\<lambda>l. minLevel \<le> l)"

datatype Severity = Severity_Unknown | Severity_Error | Severity_Warning | Severity_Info | Severity_Debug

definition xRayLogLevel :: "Handler \<Rightarrow> Severity" where
  "xRayLogLevel h =
     (if h LevelDebug then Severity_Debug
      else if h LevelInfo then Severity_Info
      else if h LevelError then Severity_Error
      else if h LevelWarn then Severity_Warning
      else Severity_Unknown)"

section \<open>debug.go: options and state\<close>

text \<open>A \<open>time.Duration\<close> counts nanoseconds.\<close>

definition Second :: int where "Second = 1000000000"

record DebugOptions =
  OutputDir :: string
  ResourceInterval :: int
  GatewayInterval :: int
  EnableNetlink :: bool
  VerbosePipe :: bool
  ProfileInterval :: int
  CPUProfileDuration :: int
  CollectCPUProfile :: bool

text \<open>The zero value \<open>DebugOptions{}\<close>.\<close>

definition zeroDebugOptions :: DebugOptions where
  "zeroDebugOptions =
     \<lparr>OutputDir = [], ResourceInterval = 0, GatewayInterval = 0, EnableNetlink = False,
      VerbosePipe = False, ProfileInterval = 0, CPUProfileDuration = 0, CollectCPUProfile = False\<rparr>"

definition defaultDebugOptions :: DebugOptions where
  "defaultDebugOptions =
     \<lparr>OutputDir = ''debug-output'', ResourceInterval = 5 * Second, GatewayInterval = 3 * Second,
      EnableNetlink = True, VerbosePipe = True, ProfileInterval = 30 * Second,
      CPUProfileDuration = 30 * Second, CollectCPUProfile = True\<rparr>"

definition normalized :: "DebugOptions \<Rightarrow> DebugOptions" where
  "normalized o0 =
     (let o1 = (if OutputDir o0 = [] then o0\<lparr>OutputDir := ''debug-output''\<rparr> else o0);
          o2 = (if ResourceInterval o1 \<le> 0 then o1\<lparr>ResourceInterval := 5 * Second\<rparr> else o1);
          o3 = (if GatewayInterval o2 \<le> 0 then o2\<lparr>GatewayInterval := 3 * Second\<rparr> else o2);
          o4 = (if ProfileInterval o3 \<le> 0 then o3\<lparr>ProfileInterval := 30 * Second\<rparr> else o3);
          o5 = (if CPUProfileDuration o4 \<le> 0 then o4\<lparr>CPUProfileDuration := 30 * Second\<rparr> else o4)
      in o5)"

text \<open>
  Of \<open>debugState\<close> the model keeps \<open>enabled\<close> and whether \<open>cancel\<close> is set; the
  monitor goroutines it starts only observe and log, except for the gateway monitor,
  which runs concurrently with the calls modelled here and is not part of the model.
\<close>

record debugState =
  enabled :: bool
  cancel :: bool

section \<open>The client: configuration\<close>

text \<open>
  An IP address and a route address are kept in their textual form (what \<open>String()\<close>
  prints and \<open>route.MustParseAddr\<close> reads). A pointer or slice field that may be
  \<open>nil\<close> is an \<open>option\<close>.
\<close>

datatype LogType = LogType_None | LogType_Console | LogType_File | LogType_Event

record Proxy =
  IP :: string
  Port :: int

record IPNet =
  IPNet_IP :: string
  IPNet_Mask :: string

record Config =
  GatewayIP :: "string option"
  InboundProxy :: "Proxy option"
  TUNAddress :: "IPNet option"
  RoutesToTUN :: "string list option"
  TLSAllowInsecure :: bool
  Logger :: "Handler option"
  XRayLogType :: LogType
  Debug :: bool
  DebugOptions :: DebugOptions

definition Config_apply :: "Config \<Rightarrow> Config \<Rightarrow> Config" where
  "Config_apply c0 new =
     (let c1 = (if GatewayIP new \<noteq> None then c0\<lparr>GatewayIP := GatewayIP new\<rparr> else c0);
          c2 = (if InboundProxy new \<noteq> None then c1\<lparr>InboundProxy := InboundProxy new\<rparr> else c1);
          c3 = (if TUNAddress new \<noteq> None then c2\<lparr>TUNAddress := TUNAddress new\<rparr> else c2);
          c4 = (if Logger new \<noteq> None then c3\<lparr>Logger := Logger new\<rparr> else c3);
          c5 = (if RoutesToTUN new \<noteq> None then c4\<lparr>RoutesToTUN := RoutesToTUN new\<rparr> else c4);
          c6 = (if XRayLogType new \<noteq> LogType_None then c5\<lparr>XRayLogType := XRayLogType new\<rparr> else c5);
          c7 = (if Debug new then c6\<lparr>Debug := True\<rparr> else c6);
          c8 = (if DebugOptions new \<noteq> zeroDebugOptions then c7\<lparr>DebugOptions := DebugOptions new\<rparr> else c7)
      in c8)"

text \<open>The zero value \<open>Config{}\<close>.\<close>

definition zeroConfig :: Config where
  "zeroConfig =
     \<lparr>GatewayIP = None, InboundProxy = None, TUNAddress = None, RoutesToTUN = None,
      TLSAllowInsecure = False, Logger = None, XRayLogType = LogType_None, Debug = False,
      DebugOptions = zeroDebugOptions\<rparr>"

definition disconnectTimeout :: nat where
  "disconnectTimeout = 30 * 1000000000"

definition defaultTUNAddress :: IPNet where
  "defaultTUNAddress = \<lparr>IPNet_IP = ''192.18.0.1'', IPNet_Mask = ''255.255.255.255''\<rparr>"

definition DefaultRoutesToTUN :: "string list" where
  "DefaultRoutesToTUN = [''0.0.0.0/1'', ''128.0.0.0/1'']"

text \<open>\<open>strconv.Itoa\<close> and \<open>Proxy.String\<close>.\<close>

fun digits10 :: "nat \<Rightarrow> string" where
  "digits10 n =
     (if n < 10 then [''0123456789'' ! n] else digits10 (n div 10) @ [''0123456789'' ! (n mod 10)])"

declare digits10.simps [simp del]

definition Itoa :: "int \<Rightarrow> string" where
  "Itoa i = (if i < 0 then CHR ''-'' # digits10 (nat (- i)) else digits10 (nat i))"

definition Proxy_String :: "Proxy \<Rightarrow> string" where
  "Proxy_String p = IP p @ '':'' @ Itoa (Port p)"

text \<open>
  \<open>strings.TrimSpace\<close> on the ASCII white space characters (tab, line feed, vertical
  tab, form feed, carriage return, space); bytes beyond ASCII are left as they are.
\<close>

definition isSpace :: "char \<Rightarrow> bool" where
  "isSpace ch = (ch \<in> set [CHR 0x09, CHR 0x0A, CHR 0x0B, CHR 0x0C, CHR 0x0D, CHR 0x20])"

definition TrimSpace :: "string \<Rightarrow> string" where
  "TrimSpace s = rev (dropWhile isSpace (rev (dropWhile isSpace s)))"

section \<open>The collaborators and the operating system\<close>

text \<open>
  The engine (\<open>xInst\<close>), the TUN device, the routing table and the pipe are code of
  other packages. Every call to them is recorded in a trace with its outcome, and the
  part of the operating system they act on is a record. Whether a call succeeds is for
  the environment to say; it may depend on everything that happened before.
\<close>

record route_Opts =
  Gateway :: "string option"
  IfName :: string
  Routes :: "string list"

datatype call =
    xInst_Start
  | xInst_Close
  | tun_New
  | tun_Up
  | tun_Close
  | routes_Add route_Opts
  | routes_Delete route_Opts
  | pipe_Copy string
  | stopTunnel_call
  | tunnelStopped_recv
  | ctx_Done

type_synonym event = "call \<times> error option"

record world =
  engine_running :: bool
  tun_dev :: "string option"
  tun_is_up :: bool
  installed :: "route_Opts list"
  pipe_tasks :: nat
  waited :: nat
  trace :: "event list"

text \<open>What \<open>xray-knife\<close> is given and gives back.\<close>

record Socks =
  Socks_Remark :: string
  Socks_Address :: string
  Socks_Port :: string

record XrayService =
  Verbose :: bool
  AllowInsecure :: bool
  CustomLogType :: LogType
  CustomLogLevel :: Severity
  Inbound :: Socks

type_synonym Protocol = string

record GeneralConfig =
  Address :: string

type_synonym Instance = "XrayService \<times> Protocol"

record env =
  CreateProtocol :: "XrayService \<Rightarrow> string \<Rightarrow> error + Protocol"
  Parse :: "Protocol \<Rightarrow> error option"
  ConvertToGeneralConfig :: "Protocol \<Rightarrow> GeneralConfig"
  MakeInstance :: "XrayService \<Rightarrow> Protocol \<Rightarrow> error option"
  ResolveIPAddr :: "string \<Rightarrow> error + string"
  Start_result :: "world \<Rightarrow> error option"
  Close_result :: "world \<Rightarrow> error option"
  tun_New_result :: "world \<Rightarrow> error + string"
  tun_Up_result :: "world \<Rightarrow> error option"
  tun_Close_result :: "world \<Rightarrow> error option"
  Add_result :: "world \<Rightarrow> route_Opts \<Rightarrow> error option"
  Delete_result :: "world \<Rightarrow> route_Opts \<Rightarrow> error option"
  Copy_result :: "world \<Rightarrow> (nat \<times> error option) option"
  select_tie :: bool
  DiscoverGateway :: "error + string"
  NewPipe :: "error option"
  route_New :: "error option"
  Listen :: "error + int"

text \<open>
  The fields of \<open>env\<close>: the parser and resolver calls of \<open>createXrayProxy\<close>; the result
  of each call to the engine, the device and the routing table, given the world it is
  made in; \<open>Copy_result\<close>, when the goroutine of the pipe will have its send on
  \<open>tunnelStopped\<close> ready, counted from the start of the wait in \<open>Disconnect\<close>, and the
  error it sends (\<open>None\<close> when \<open>pipe.Copy\<close> does not return); \<open>select_tie\<close>, whether
  the \<open>select\<close> takes the pipe's branch when both branches are ready; and the calls
  \<open>NewClient\<close> and \<open>getFreePort\<close> make.

  A call that succeeds changes the world: the engine runs or stops, the device exists
  or is gone, a route is installed or removed. A call that fails leaves it as it was.
\<close>

definition record_call :: "call \<Rightarrow> error option \<Rightarrow> world \<Rightarrow> world" where
  "record_call cl r w = w\<lparr>trace := trace w @ [(cl, r)]\<rparr>"

definition do_Start :: "env \<Rightarrow> world \<Rightarrow> error option \<times> world" where
  "do_Start E w =
     (let r = Start_result E w
      in (r, record_call xInst_Start r (if r = None then w\<lparr>engine_running := True\<rparr> else w)))"

definition do_Close :: "env \<Rightarrow> world \<Rightarrow> error option \<times> world" where
  "do_Close E w =
     (let r = Close_result E w
      in (r, record_call xInst_Close r (if r = None then w\<lparr>engine_running := False\<rparr> else w)))"

definition do_tun_New :: "env \<Rightarrow> world \<Rightarrow> (error + string) \<times> world" where
  "do_tun_New E w =
     (case tun_New_result E w of
        Inl e \<Rightarrow> (Inl e, record_call tun_New (Some e) w)
      | Inr name \<Rightarrow> (Inr name, record_call tun_New None (w\<lparr>tun_dev := Some name\<rparr>)))"

definition do_tun_Up :: "env \<Rightarrow> world \<Rightarrow> error option \<times> world" where
  "do_tun_Up E w =
     (let r = tun_Up_result E w
      in (r, record_call tun_Up r (if r = None then w\<lparr>tun_is_up := True\<rparr> else w)))"

text \<open>
  Closing the device removes it, and with it the routes that go through it.
\<close>

definition do_tun_Close :: "env \<Rightarrow> world \<Rightarrow> error option \<times> world" where
  "do_tun_Close E w =
     (let r = tun_Close_result E w
      in (r, record_call tun_Close r
            (if r = None
             then w\<lparr>tun_dev := None, tun_is_up := False,
                    installed := filter (\<lambda>ro. Some (IfName ro) \<noteq> tun_dev w) (installed w)\<rparr>
             else w)))"

definition do_Add :: "env \<Rightarrow> route_Opts \<Rightarrow> world \<Rightarrow> error option \<times> world" where
  "do_Add E ro w =
     (let r = Add_result E w ro
      in (r, record_call (routes_Add ro) r (if r = None then w\<lparr>installed := installed w @ [ro]\<rparr> else w)))"

definition do_Delete :: "env \<Rightarrow> route_Opts \<Rightarrow> world \<Rightarrow> error option \<times> world" where
  "do_Delete E ro w =
     (let r = Delete_result E w ro
      in (r, record_call (routes_Delete ro) r (if r = None then w\<lparr>installed := removeAll ro (installed w)\<rparr> else w)))"

section \<open>The client\<close>

datatype pipe = CorePipe | instrumentedPipe pipe Handler

text \<open>
  The field \<open>tunnel\<close> is an interface value: \<open>nil\<close>, a \<open>*tun.Interface\<close> that is a nil
  pointer (what \<open>Connect\<close> stores when \<open>setupTunnel\<close> fails), some other stream (the
  mock of the tests), or the \<open>*readerMetrics\<close> wrapper.
\<close>

datatype tunnel_iface = NilTunnel | NilTunInterface | OtherTunnel | Metrics readerMetrics

text \<open>
  \<open>stopTunnel\<close> says whether the field holds a function (\<open>True\<close>) or \<open>nil\<close>. The
  channel \<open>tunnelStopped\<close> is the counter \<open>pipe_tasks\<close> of the world: the goroutines
  that \<open>Connect\<close> started and whose one send has not been received yet.
\<close>

record Client =
  cfg :: Config
  xInst :: "Instance option"
  xCfg :: "GeneralConfig option"
  xSrvIP :: "string option"
  tunnel :: tunnel_iface
  pipe :: pipe
  stopTunnel :: bool
  debug :: debugState

definition syncDebugState :: "Client \<Rightarrow> Client" where
  "syncDebugState c =
     (let c1 = c\<lparr>cfg := (cfg c)\<lparr>DebugOptions := normalized (DebugOptions (cfg c))\<rparr>\<rparr>
      in c1\<lparr>debug := (debug c1)\<lparr>enabled := Debug (cfg c1)\<rparr>\<rparr>)"

definition startDebugging :: "Client \<Rightarrow> Client" where
  "startDebugging c =
     (if \<not> enabled (debug c) \<or> cancel (debug c) then c
      else c\<lparr>debug := (debug c)\<lparr>cancel := True\<rparr>\<rparr>)"

definition stopDebugging :: "Client \<Rightarrow> Client" where
  "stopDebugging c =
     (if \<not> cancel (debug c) then c
      else c\<lparr>debug := (debug c)\<lparr>cancel := False\<rparr>\<rparr>)"

definition wrapPipeWithDebug :: "pipe \<Rightarrow> Handler option \<Rightarrow> bool \<Rightarrow> pipe" where
  "wrapPipeWithDebug p logger en =
     (if \<not> en then p
      else (case p of
              instrumentedPipe _ _ \<Rightarrow> p
            | CorePipe \<Rightarrow>
                instrumentedPipe p (case logger of None \<Rightarrow> level_handler LevelInfo | Some h \<Rightarrow> h)))"

definition getFreePort :: "env \<Rightarrow> int" where
  "getFreePort E = (case Listen E of Inl _ \<Rightarrow> 10808 | Inr port \<Rightarrow> port)"

definition defaultInboundProxy :: "env \<Rightarrow> Proxy" where
  "defaultInboundProxy E = \<lparr>IP = ''127.0.0.1'', Port = getFreePort E\<rparr>"

definition NewClient :: "env \<Rightarrow> error + Client" where
  "NewClient E =
     (case DiscoverGateway E of
        Inl err \<Rightarrow> Inl (Errorf ''discover gateway: '' err)
      | Inr gatewayIP \<Rightarrow>
     (case NewPipe E of
        Some err \<Rightarrow> Inl (Errorf ''tun2socks new pipe: '' err)
      | None \<Rightarrow>
     (case route_New E of
        Some err \<Rightarrow> Inl (Errorf ''route new: '' err)
      | None \<Rightarrow>
     (let client = \<lparr>cfg = \<lparr>GatewayIP = Some gatewayIP,
                             InboundProxy = Some (defaultInboundProxy E),
                             TUNAddress = Some defaultTUNAddress,
                             RoutesToTUN = Some DefaultRoutesToTUN,
                             TLSAllowInsecure = False,
                             Logger = Some (level_handler LevelInfo),
                             XRayLogType = LogType_None,
                             Debug = False,
                             DebugOptions = defaultDebugOptions\<rparr>,
                      xInst = None, xCfg = None, xSrvIP = None, tunnel = NilTunnel,
                      pipe = CorePipe, stopTunnel = False,
                      debug = \<lparr>enabled = False, cancel = False\<rparr>\<rparr>;
          client = syncDebugState client;
          client = client\<lparr>pipe := wrapPipeWithDebug (pipe client) (Logger (cfg client))
                                     (Debug (cfg client) \<and> VerbosePipe (DebugOptions (cfg client)))\<rparr>
      in Inr client))))"

definition NewClientWithOpts :: "env \<Rightarrow> Config \<Rightarrow> error + Client" where
  "NewClientWithOpts E config =
     (case NewClient E of
        Inl err \<Rightarrow> Inl err
      | Inr client \<Rightarrow>
     (let client = client\<lparr>cfg := Config_apply (cfg client) config\<rparr>;
          client = syncDebugState client;
          client = client\<lparr>pipe := wrapPipeWithDebug (pipe client) (Logger (cfg client))
                                     (Debug (cfg client) \<and> VerbosePipe (DebugOptions (cfg client)))\<rparr>
      in Inr client))"

definition currentGatewayIP :: "Client \<Rightarrow> string option" where
  "currentGatewayIP c = GatewayIP (cfg c)"

text \<open>
  With \<open>xSrvIP\<close> nil, \<open>String()\<close> prints \<open><nil>\<close> and \<open>route.MustParseAddr\<close> panics.
\<close>

definition xrayToGatewayRoute :: "Client \<Rightarrow> route_Opts outcome" where
  "xrayToGatewayRoute c =
     (case xSrvIP c of
        None \<Rightarrow> Panics
      | Some ip \<Rightarrow> Returns \<lparr>Gateway = currentGatewayIP c, IfName = [], Routes = [ip @ ''/32'']\<rparr>)"

definition createXrayProxy :: "env \<Rightarrow> string \<Rightarrow> Client \<Rightarrow> (error + Instance \<times> GeneralConfig) outcome \<times> Client" where
  "createXrayProxy E link c =
     (case InboundProxy (cfg c) of None \<Rightarrow> (Panics, c) | Some p \<Rightarrow>
     (case Logger (cfg c) of None \<Rightarrow> (Panics, c) | Some h \<Rightarrow>
     (let inbound = \<lparr>Socks_Remark = ''GoXRay-TUN-Listener'', Socks_Address = IP p,
                     Socks_Port = Itoa (Port p)\<rparr>;
          svc = \<lparr>Verbose = True, AllowInsecure = TLSAllowInsecure (cfg c),
                 CustomLogType = XRayLogType (cfg c), CustomLogLevel = xRayLogLevel h,
                 Inbound = inbound\<rparr>;
          link = TrimSpace link
      in (case CreateProtocol E svc link of
            Inl err \<Rightarrow> (Returns (Inl (Errorf ''invalid config: protocol create: '' err)), c)
          | Inr protocol \<Rightarrow>
         (case Parse E protocol of
            Some err \<Rightarrow> (Returns (Inl (Errorf ''invalid config: parse: '' err)), c)
          | None \<Rightarrow>
         (let gcfg = ConvertToGeneralConfig E protocol
          in (case MakeInstance E svc protocol of
                Some err \<Rightarrow> (Returns (Inl (Errorf ''make instance: '' err)), c)
              | None \<Rightarrow>
             (case ResolveIPAddr E (Address gcfg) of
                Inl err \<Rightarrow> (Returns (Inl (Errorf ''xray address not resolvable: '' err)), c)
              | Inr ip \<Rightarrow> (Returns (Inr ((svc, protocol), gcfg)), c\<lparr>xSrvIP := Some ip\<rparr>)))))))))"

definition setupTunnel :: "env \<Rightarrow> Client \<Rightarrow> world \<Rightarrow> (error + string) outcome \<times> world" where
  "setupTunnel E c w =
     (case do_tun_New E w of
        (Inl err, w1) \<Rightarrow> (Returns (Inl (Errorf ''create tun: '' err)), w1)
      | (Inr name, w1) \<Rightarrow>
     (case TUNAddress (cfg c) of None \<Rightarrow> (Panics, w1) | Some addr \<Rightarrow>
     (case do_tun_Up E w1 of
        (Some err, w2) \<Rightarrow> (Returns (Inl (Errorf ''setup interface: '' err)), w2)
      | (None, w2) \<Rightarrow>
     (case do_Add E \<lparr>Gateway = None, IfName = name,
                     Routes = (case RoutesToTUN (cfg c) of None \<Rightarrow> [] | Some rs \<Rightarrow> rs)\<rparr> w2 of
        (Some err, w3) \<Rightarrow> (Returns (Inl (Errorf ''add route: '' err)), w3)
      | (None, w3) \<Rightarrow> (Returns (Inr name), w3)))))"

text \<open>
  \<open>Connect\<close>. The goroutine it starts calls \<open>pipe.Copy\<close> and later sends the result on
  \<open>tunnelStopped\<close>; starting it is the event \<open>pipe_Copy\<close>.
\<close>

definition Connect :: "env \<Rightarrow> string \<Rightarrow> Client \<times> world \<Rightarrow> error option outcome \<times> Client \<times> world" where
  "Connect E link cw =
     (case cw of (c, w) \<Rightarrow>
     (case Logger (cfg c) of None \<Rightarrow> (Panics, c, w) | Some _ \<Rightarrow>
     (case createXrayProxy E link c of
        (Panics, c1) \<Rightarrow> (Panics, c1, w)
      | (Returns (Inl err), c1) \<Rightarrow>
          (Returns (Some (Errorf ''create xray core instance: '' err)), c1\<lparr>xInst := None, xCfg := None\<rparr>, w)
      | (Returns (Inr (inst, gcfg)), c1) \<Rightarrow>
     (let c2 = c1\<lparr>xInst := Some inst, xCfg := Some gcfg\<rparr> in
     (case do_Start E w of
        (Some err, w1) \<Rightarrow> (Returns (Some (Errorf ''start xray core instance: '' err)), c2, w1)
      | (None, w1) \<Rightarrow>
     (case setupTunnel E c2 w1 of
        (Panics, w2) \<Rightarrow> (Panics, c2, w2)
      | (Returns (Inl err), w2) \<Rightarrow>
          (Returns (Some (Errorf ''setup TUN device: '' err)), c2\<lparr>tunnel := NilTunInterface\<rparr>, w2)
      | (Returns (Inr name), w2) \<Rightarrow>
     (let c3 = c2\<lparr>tunnel := Metrics newReaderMetrics\<rparr> in
     (case xrayToGatewayRoute c3 of Panics \<Rightarrow> (Panics, c3, w2) | Returns ro \<Rightarrow>
     (case do_Delete E ro w2 of (_, w3) \<Rightarrow>
     (case do_Add E ro w3 of
        (Some err, w4) \<Rightarrow>
          (Returns (Some (Errorf ''add xray server route exception: '' err)), c3, w4)
      | (None, w4) \<Rightarrow>
     (let c4 = c3\<lparr>stopTunnel := True\<rparr> in
     (case InboundProxy (cfg c4) of None \<Rightarrow> (Panics, c4, w4) | Some p \<Rightarrow>
     (let w5 = record_call (pipe_Copy (Proxy_String p)) None (w4\<lparr>pipe_tasks := Suc (pipe_tasks w4)\<rparr>)
      in (Returns None, startDebugging c4, w5))))))))))))))"

section \<open>Disconnect\<close>

text \<open>
  A \<open>context.Context\<close> is what \<open>Disconnect\<close> sees of it: when it becomes done, counted in
  nanoseconds from the moment the wait for the pipe begins, and the error \<open>Err()\<close> then
  reports (\<open>DeadlineExceeded\<close> for a deadline, \<open>Canceled\<close> for a cancellation);
  \<open>None\<close> is a context that is never done, as \<open>context.Background()\<close>.
  \<open>context.WithTimeout\<close> adds a timer; when the parent is done no later than the timer,
  the parent's error is reported.
\<close>

type_synonym Context = "(nat \<times> error) option"

definition WithTimeout :: "Context \<Rightarrow> nat \<Rightarrow> nat \<times> error" where
  "WithTimeout ctx d =
     (case ctx of
        None \<Rightarrow> (d, DeadlineExceeded)
      | Some (t, e) \<Rightarrow> (if t \<le> d then (t, e) else (d, DeadlineExceeded)))"

text \<open>
  The \<open>select\<close>: the pipe's send is ready at the time the environment says, if a
  goroutine is still to send; the branch that is ready first is taken, and when both are
  ready at once the scheduler (\<open>select_tie\<close>) picks.
\<close>

datatype selected = case_tunnelStopped "error option" | case_ctx_Done

definition select_wait :: "env \<Rightarrow> world \<Rightarrow> nat \<Rightarrow> selected \<times> nat" where
  "select_wait E w d =
     (case (if pipe_tasks w = 0 then None else Copy_result E w) of
        None \<Rightarrow> (case_ctx_Done, d)
      | Some (t, tunErr) \<Rightarrow>
          (if t < d then (case_tunnelStopped tunErr, t)
           else if d < t then (case_ctx_Done, d)
           else if select_tie E then (case_tunnelStopped tunErr, t)
           else (case_ctx_Done, d)))"

text \<open>
  \<open>Disconnect\<close>. The three calls inside \<open>errors.Join\<close> are made from left to right,
  each whatever the one before has returned. A method call through the nil interface
  (\<open>xInst\<close>, \<open>tunnel\<close>) or through a nil device pointer panics, and so does
  \<open>xrayToGatewayRoute\<close> without a server address. The time \<open>stopDebugging\<close> and the
  three calls take is not counted: \<open>waited\<close> is the time spent in the \<open>select\<close>.
\<close>

definition Disconnect :: "env \<Rightarrow> Context \<Rightarrow> Client \<times> world \<Rightarrow> error option outcome \<times> Client \<times> world" where
  "Disconnect E ctx cw =
     (case cw of (c, w) \<Rightarrow>
     (if \<not> stopTunnel c then (Returns None, c, w)
      else
     (let c1 = stopDebugging c;
          w0 = record_call stopTunnel_call None w
      in (case xInst c1 of None \<Rightarrow> (Panics, c1, w0) | Some _ \<Rightarrow>
         (case do_Close E w0 of (e1, w1) \<Rightarrow>
         (if tunnel c1 = NilTunnel \<or> tunnel c1 = NilTunInterface then (Panics, c1, w1)
          else
         (case do_tun_Close E w1 of (e2, w2) \<Rightarrow>
         (case xrayToGatewayRoute c1 of Panics \<Rightarrow> (Panics, c1, w2) | Returns ro \<Rightarrow>
         (case do_Delete E ro w2 of (e3, w3) \<Rightarrow>
         (let err = errors_Join [e1, e2, e3]
          in (case WithTimeout ctx disconnectTimeout of (d, ctxErr) \<Rightarrow>
             (case select_wait E w3 d of
                (case_tunnelStopped tunErr, t) \<Rightarrow>
                  (Returns (errors_Join [tunErr, err]), c1,
                   record_call tunnelStopped_recv tunErr
                     (w3\<lparr>pipe_tasks := pipe_tasks w3 - 1, waited := waited w3 + t\<rparr>))
              | (case_ctx_Done, t) \<Rightarrow>
                  (Returns (errors_Join [Some ctxErr, err]), c1,
                   record_call ctx_Done (Some ctxErr) (w3\<lparr>waited := waited w3 + t\<rparr>))))))))))))))"

section \<open>Byte counters of the client\<close>

definition Client_BytesRead :: "Client \<Rightarrow> int outcome" where
  "Client_BytesRead c =
     (case tunnel c of
        NilTunnel \<Rightarrow> Returns 0
      | Metrics m \<Rightarrow> Returns (BytesRead m)
      | _ \<Rightarrow> Panics)"

definition Client_BytesWritten :: "Client \<Rightarrow> int outcome" where
  "Client_BytesWritten c =
     (case tunnel c of
        NilTunnel \<Rightarrow> Returns 0
      | Metrics m \<Rightarrow> Returns (BytesWritten m)
      | _ \<Rightarrow> Panics)"

section \<open>Notions used to state the properties\<close>

text \<open>The events a call has added to the trace.\<close>

definition issued :: "world \<Rightarrow> world \<Rightarrow> event list" where
  "issued w w' = drop (length (trace w)) (trace w')"

text \<open>The routes added with success, in the order of their addition.\<close>

fun adds :: "event list \<Rightarrow> route_Opts list" where
  "adds [] = []"
| "adds ((routes_Add ro, None) # evs) = ro # adds evs"
| "adds (ev # evs) = adds evs"

text \<open>The route \<open>setupTunnel\<close> adds for the device \<open>name\<close>.\<close>

definition tunnelRoute :: "Client \<Rightarrow> string \<Rightarrow> route_Opts" where
  "tunnelRoute c name =
     \<lparr>Gateway = None, IfName = name,
      Routes = (case RoutesToTUN (cfg c) of None \<Rightarrow> [] | Some rs \<Rightarrow> rs)\<rparr>"

text \<open>Nothing of a session is left in the operating system.\<close>

definition os_clean :: "world \<Rightarrow> bool" where
  "os_clean w = (\<not> engine_running w \<and> tun_dev w = None \<and> installed w = [])"

text \<open>
  What a successful \<open>Connect\<close> leaves in the client, and what the tests build by hand:
  the cancel function, the engine, a stream and the server address are there.
\<close>

definition connected :: "Client \<Rightarrow> bool" where
  "connected c =
     (stopTunnel c \<and> xInst c \<noteq> None \<and> xSrvIP c \<noteq> None \<and>
      tunnel c \<noteq> NilTunnel \<and> tunnel c \<noteq> NilTunInterface)"

text \<open>The deadline of the wait in \<open>Disconnect\<close>: the caller's, capped by the timeout.\<close>

definition effective_deadline :: "Context \<Rightarrow> nat" where
  "effective_deadline ctx =
     (case ctx of None \<Rightarrow> disconnectTimeout | Some (t, e) \<Rightarrow> min t disconnectTimeout)"

section \<open>A mocked environment\<close>

text \<open>
  The collaborators as the tests mock them: every call succeeds, except that deleting a
  route that is not installed reports an error. The parser stands for \<open>xray-knife\<close>: it
  knows the scheme \<open>vless://\<close> and asks for a port.
\<close>

definition world0 :: world where
  "world0 = \<lparr>engine_running = False, tun_dev = None, tun_is_up = False, installed = [],
             pipe_tasks = 0, waited = 0, trace = []\<rparr>"

definition mock_env :: env where
  "mock_env =
     \<lparr>CreateProtocol = (\<lambda>svc link. if prefix ''vless://'' link then Inr link
                                     else Inl (New ''invalid protocol type'')),
      Parse = (\<lambda>p. if CHR '':'' \<in> set (drop 8 p) then None else Some (New ''missing port'')),
      ConvertToGeneralConfig = (\<lambda>p. \<lparr>Address = ''ok.example''\<rparr>),
      MakeInstance = (\<lambda>svc p. None),
      ResolveIPAddr = (\<lambda>host. Inr ''203.0.113.7''),
      Start_result = (\<lambda>w. None),
      Close_result = (\<lambda>w. None),
      tun_New_result = (\<lambda>w. Inr ''utun7''),
      tun_Up_result = (\<lambda>w. None),
      tun_Close_result = (\<lambda>w. None),
      Add_result = (\<lambda>w ro. None),
      Delete_result = (\<lambda>w ro. if ro \<in> set (installed w) then None else Some (New ''no such route'')),
      Copy_result = (\<lambda>w. Some (5, None)),
      select_tie = True,
      DiscoverGateway = Inr ''192.168.1.1'',
      NewPipe = None,
      route_New = None,
      Listen = Inr 49152\<rparr>"

text \<open>The client \<open>NewClient\<close> builds in this environment, written out.\<close>

definition client0 :: Client where
  "client0 =
     \<lparr>cfg = \<lparr>GatewayIP = Some ''192.168.1.1'',
             InboundProxy = Some \<lparr>IP = ''127.0.0.1'', Port = 49152\<rparr>,
             TUNAddress = Some defaultTUNAddress,
             RoutesToTUN = Some DefaultRoutesToTUN,
             TLSAllowInsecure = False,
             Logger = Some (level_handler LevelInfo),
             XRayLogType = LogType_None,
             Debug = False,
             DebugOptions = defaultDebugOptions\<rparr>,
      xInst = None, xCfg = None, xSrvIP = None, tunnel = NilTunnel,
      pipe = CorePipe, stopTunnel = False,
      debug = \<lparr>enabled = False, cancel = False\<rparr>\<rparr>"

definition ok_link :: string where
  "ok_link = ''vless://uuid@ok.example:443''"

text \<open>The same environment with a routing table that refuses the exception route.\<close>

definition mock_env_no_exception :: env where
  "mock_env_no_exception =
     mock_env\<lparr>Add_result := (\<lambda>w ro. if IfName ro = [] then Some (New ''network is unreachable'') else None)\<rparr>"

definition mock_tunnel_route :: route_Opts where
  "mock_tunnel_route = \<lparr>Gateway = None, IfName = ''utun7'', Routes = [''0.0.0.0/1'', ''128.0.0.0/1'']\<rparr>"

definition mock_exception_route :: route_Opts where
  "mock_exception_route = \<lparr>Gateway = Some ''192.168.1.1'', IfName = [], Routes = [''203.0.113.7/32'']\<rparr>"

definition mock_service :: XrayService where
  "mock_service =
     \<lparr>Verbose = True, AllowInsecure = False, CustomLogType = LogType_None,
      CustomLogLevel = Severity_Info,
      Inbound = \<lparr>Socks_Remark = ''GoXRay-TUN-Listener'', Socks_Address = ''127.0.0.1'',
                 Socks_Port = ''49152''\<rparr>\<rparr>"

text \<open>
  The client and the world after \<open>Connect\<close> on \<open>client0\<close> in \<open>world0\<close>, and the world
  after one \<open>Disconnect\<close> that follows it.
\<close>

definition client1 :: Client where
  "client1 =
     client0\<lparr>xInst := Some (mock_service, ok_link), xCfg := Some \<lparr>Address = ''ok.example''\<rparr>,
             xSrvIP := Some ''203.0.113.7'', tunnel := Metrics newReaderMetrics,
             stopTunnel := True\<rparr>"

definition trace1 :: "event list" where
  "trace1 =
     [(xInst_Start, None), (tun_New, None), (tun_Up, None), (routes_Add mock_tunnel_route, None),
      (routes_Delete mock_exception_route, Some (New ''no such route'')),
      (routes_Add mock_exception_route, None), (pipe_Copy ''127.0.0.1:49152'', None)]"

definition world1 :: world where
  "world1 =
     \<lparr>engine_running = True, tun_dev = Some ''utun7'', tun_is_up = True,
      installed = [mock_tunnel_route, mock_exception_route],
      pipe_tasks = 1, waited = 0, trace = trace1\<rparr>"

definition world2 :: world where
  "world2 =
     \<lparr>engine_running = False, tun_dev = None, tun_is_up = False, installed = [],
      pipe_tasks = 0, waited = 5,
      trace = trace1 @ [(stopTunnel_call, None), (xInst_Close, None), (tun_Close, None),
                        (routes_Delete mock_exception_route, None), (tunnelStopped_recv, None)]\<rparr>"

text \<open>
  The environments of the tests of \<open>Disconnect\<close>: one where the engine, the device and
  the pipe all report an error, and one where the pipe never returns.
\<close>

definition mock_env_failing :: env where
  "mock_env_failing =
     mock_env\<lparr>Close_result := (\<lambda>w. Some (New ''instance close err'')),
              tun_Close_result := (\<lambda>w. Some (New ''tun close err'')),
              Copy_result := (\<lambda>w. Some (5, Some (New ''stop err'')))\<rparr>"

definition mock_env_stuck_pipe :: env where
  "mock_env_stuck_pipe = mock_env\<lparr>Copy_result := (\<lambda>w. None)\<rparr>"

section \<open>Properties of the log level and of the configuration\<close>

lemma xRayLogLevel_level_handler:
  "xRayLogLevel (level_handler m) =
     (if m \<le> - 4 then Severity_Debug else if m \<le> 0 then Severity_Info
      else if m \<le> 8 then Severity_Error else Severity_Unknown)"
  by (simp add: xRayLogLevel_def level_handler_def LevelDebug_def LevelInfo_def
      LevelWarn_def LevelError_def)

text \<open>
  C7. The engine's log severity is meant to follow the handler's level: debug, info, warn
  and error to Debug, Info, Warning and Error. \<open>xRayLogLevel\<close> asks for \<open>LevelError\<close>
  before \<open>LevelWarn\<close>, and a handler that enables the warn level enables the error
  level too: for the handler whose minimum level is warn the result is
  \<open>Severity_Error\<close>, not \<open>Severity_Warning\<close>.
\<close>

theorem xRayLogLevel_warn_gives_Error:
  "xRayLogLevel (level_handler LevelWarn) = Severity_Error \<and>
   xRayLogLevel (level_handler LevelWarn) \<noteq> Severity_Warning"
  by (simp add: xRayLogLevel_level_handler LevelWarn_def)

lemma Config_apply_TLSAllowInsecure:
  "TLSAllowInsecure (Config_apply c new) = TLSAllowInsecure c"
  by (simp add: Config_apply_def Let_def)

lemma NewClient_mock_env: "NewClient mock_env = Inr client0"
  by (simp add: NewClient_def mock_env_def client0_def syncDebugState_def wrapPipeWithDebug_def
      defaultInboundProxy_def getFreePort_def normalized_def defaultDebugOptions_def Second_def
      Let_def)

text \<open>
  C8. \<open>NewClientWithOpts\<close> is to overlay the non-zero fields of the given \<open>Config\<close> on
  the defaults. \<open>Config.apply\<close> has no case for \<open>TLSAllowInsecure\<close>: for the
  configuration \<open>Config{TLSAllowInsecure: true}\<close> the client is built, and its
  \<open>TLSAllowInsecure\<close> is still \<open>false\<close>.
\<close>

theorem NewClientWithOpts_loses_TLSAllowInsecure:
  "(case NewClientWithOpts mock_env (zeroConfig\<lparr>TLSAllowInsecure := True\<rparr>) of
      Inl err \<Rightarrow> False
    | Inr client \<Rightarrow> TLSAllowInsecure (cfg client) = False)"
  by (simp add: NewClientWithOpts_def NewClient_mock_env Let_def syncDebugState_def
      Config_apply_TLSAllowInsecure client0_def)

section \<open>Properties of the byte counters\<close>

lemma sint_add_fits:
  fixes a n :: "64 word"
  assumes "0 \<le> sint n" and "sint a + sint n < 2 ^ 63"
  shows "sint (a + n) = sint a + sint n"
proof -
  have lo: "- (2 ^ 63) \<le> sint a"
    using sint_ge [of a] by simp
  have "sint (a + n) = signed_take_bit 63 (sint a + sint n)"
    by (simp add: sint_word_ariths)
  also have "\<dots> = sint a + sint n"
    using assms lo by (intro signed_take_bit_int_eq_self) simp_all
  finally show ?thesis .
qed

lemma io_step_mono:
  assumes "call_fits cl s"
  shows "BytesRead s \<le> BytesRead (io_step cl s) \<and> BytesWritten s \<le> BytesWritten (io_step cl s)"
proof (cases cl)
  case (ReadCall res now)
  then show ?thesis
    using assms by (cases res) (auto simp: Read_def BytesRead_def BytesWritten_def sint_add_fits)
next
  case (WriteCall res now)
  then show ?thesis
    using assms by (cases res) (auto simp: Write_def BytesRead_def BytesWritten_def sint_add_fits)
qed

lemma session_mono:
  "session_fits cs s \<Longrightarrow>
     BytesRead s \<le> BytesRead (session cs s) \<and> BytesWritten s \<le> BytesWritten (session cs s)"
proof (induction cs arbitrary: s)
  case Nil
  then show ?case by simp
next
  case (Cons cl cs)
  from Cons.prems have f: "call_fits cl s" and r: "session_fits cs (io_step cl s)"
    by simp_all
  from io_step_mono [OF f] Cons.IH [OF r] show ?case
    by simp
qed

text \<open>
  C9. A \<open>Read\<close> (a \<open>Write\<close>) of the wrapper that returns \<open>(n, nil)\<close> adds \<open>n\<close> to
  the 64-bit counter of bytes read (written) and stores the time of the call; one that
  returns an error leaves the wrapper as it was, whatever \<open>n\<close> is. Read as integers,
  the counter grows by exactly \<open>n\<close> while the sum fits the signed 64 bits, and so along
  a session whose calls fit both counters never decrease.
\<close>

theorem readerMetrics_counters:
  "nRead (snd (Read (n, None) now s)) = nRead s + n \<and>
   lastRead (snd (Read (n, None) now s)) = atomicTime_Store now \<and>
   nWritten (snd (Write (n, None) now s)) = nWritten s + n \<and>
   lastWrite (snd (Write (n, None) now s)) = atomicTime_Store now \<and>
   (0 \<le> sint n \<and> BytesRead s + sint n < 2 ^ 63 \<longrightarrow>
      BytesRead (snd (Read (n, None) now s)) = BytesRead s + sint n) \<and>
   (0 \<le> sint n \<and> BytesWritten s + sint n < 2 ^ 63 \<longrightarrow>
      BytesWritten (snd (Write (n, None) now s)) = BytesWritten s + sint n) \<and>
   (err \<noteq> None \<longrightarrow> Read (n, err) now s = ((n, err), s) \<and> Write (n, err) now s = ((n, err), s)) \<and>
   (session_fits cs s \<longrightarrow>
      BytesRead s \<le> BytesRead (session cs s) \<and> BytesWritten s \<le> BytesWritten (session cs s))"
proof -
  have "0 \<le> sint n \<and> BytesRead s + sint n < 2 ^ 63 \<longrightarrow>
      BytesRead (snd (Read (n, None) now s)) = BytesRead s + sint n"
    by (simp add: Read_def BytesRead_def sint_add_fits)
  moreover have "0 \<le> sint n \<and> BytesWritten s + sint n < 2 ^ 63 \<longrightarrow>
      BytesWritten (snd (Write (n, None) now s)) = BytesWritten s + sint n"
    by (simp add: Write_def BytesWritten_def sint_add_fits)
  moreover have "err \<noteq> None \<longrightarrow>
      Read (n, err) now s = ((n, err), s) \<and> Write (n, err) now s = ((n, err), s)"
    by (simp add: Read_def Write_def)
  moreover have "session_fits cs s \<longrightarrow>
      BytesRead s \<le> BytesRead (session cs s) \<and> BytesWritten s \<le> BytesWritten (session cs s)"
    using session_mono by blast
  ultimately show ?thesis
    by (simp add: Read_def Write_def)
qed

theorem readerMetrics_counters_witness:
  "0 \<le> sint (1500 :: 64 word) \<and> BytesRead newReaderMetrics + sint (1500 :: 64 word) < 2 ^ 63 \<and>
   BytesRead (snd (Read (1500, None) (TimeUnix 1700000000) newReaderMetrics)) = 1500 \<and>
   BytesWritten (snd (Write (1500, None) (TimeUnix 1700000000) newReaderMetrics)) = 1500 \<and>
   lastRead (snd (Read (1500, None) (TimeUnix 1700000000) newReaderMetrics)) = 1700000000 \<and>
   Some (New ''EOF'') \<noteq> None \<and>
   Read (1500, Some (New ''EOF'')) (TimeUnix 1700000000) newReaderMetrics
     = ((1500, Some (New ''EOF'')), newReaderMetrics) \<and>
   session_fits [ReadCall (1500, None) (TimeUnix 1700000000),
                 WriteCall (40, Some (New ''short write'')) (TimeUnix 1700000001),
                 WriteCall (60, None) (TimeUnix 1700000002)] newReaderMetrics \<and>
   BytesRead newReaderMetrics
     \<le> BytesRead (session [ReadCall (1500, None) (TimeUnix 1700000000),
                             WriteCall (40, Some (New ''short write'')) (TimeUnix 1700000001),
                             WriteCall (60, None) (TimeUnix 1700000002)] newReaderMetrics)"
  using readerMetrics_counters [of 1500 "TimeUnix 1700000000" newReaderMetrics "Some (New ''EOF'')"
      "[ReadCall (1500, None) (TimeUnix 1700000000),
        WriteCall (40, Some (New ''short write'')) (TimeUnix 1700000001),
        WriteCall (60, None) (TimeUnix 1700000002)]"]
  by (simp add: newReaderMetrics_def BytesRead_def BytesWritten_def Read_def Write_def
      atomicTime_Store_def)



text \<open>
  The accessors are not safe on every client that has not connected: a \<open>Connect\<close>
  that fails inside \<open>setupTunnel\<close> stores a nil \<open>*tun.Interface\<close> in the field, which
  is not the nil interface, and the type assertion to \<open>*readerMetrics\<close> then panics.
\<close>

lemma BytesRead_nil_device:
  "Client_BytesRead (c\<lparr>tunnel := NilTunInterface\<rparr>) = Panics"
  "Client_BytesWritten (c\<lparr>tunnel := NilTunInterface\<rparr>) = Panics"
  by (simp_all add: Client_BytesRead_def Client_BytesWritten_def)



section \<open>Properties of errors\<close>

lemma errors_Is_refl: "errors_Is e e"
  by (cases e) simp_all

lemma errors_Is_Joined:
  assumes "x \<in> set es" and "errors_Is x e"
  shows "errors_Is (Joined es) e"
  using assms by (auto simp: list_ex_iff)

lemma sublist_join_lines:
  assumes "s \<in> set ss"
  shows "sublist s (join_lines ss)"
  using assms
proof (induction ss rule: join_lines.induct)
  case 1
  then show ?case by simp
next
  case (2 a)
  then show ?case by simp
next
  case (3 a b bs)
  show ?case
  proof (cases "s = a")
    case True
    then show ?thesis by simp
  next
    case False
    with 3 have "sublist s (join_lines (b # bs))" by simp
    then obtain ps tl where "join_lines (b # bs) = ps @ s @ tl"
      by (auto simp: sublist_def)
    then have "join_lines (a # b # bs) = (a @ [CHR 0x0A] @ ps) @ s @ tl"
      by simp
    then show ?thesis
      unfolding sublist_def by blast
  qed
qed

lemma Error_Joined_sublist:
  assumes "x \<in> set es" and "sublist m (Error x)"
  shows "sublist m (Error (Joined es))"
proof -
  have "sublist (Error x) (join_lines (map Error es))"
    using assms(1) by (intro sublist_join_lines) simp
  with assms(2) show ?thesis
    by (auto intro: sublist_order.order.trans)
qed

lemma errors_Join_contains:
  assumes "Some x \<in> set errs" and "errors_Is x e" and "sublist (Error e) (Error x)"
  shows "\<exists>r. errors_Join errs = Some r \<and> errors_Is r e \<and> sublist (Error e) (Error r)"
proof -
  have mem: "x \<in> set (List.map_filter id errs)"
    using assms(1) by (auto simp: List.map_filter_def intro!: image_eqI [where x = "Some x"])
  then have ne: "List.map_filter id errs \<noteq> []"
    by auto
  have "errors_Join errs = Some (Joined (List.map_filter id errs))"
    using ne by (simp add: errors_Join_def Let_def)
  moreover have "errors_Is (Joined (List.map_filter id errs)) e"
    using mem assms(2) by (rule errors_Is_Joined)
  moreover have "sublist (Error e) (Error (Joined (List.map_filter id errs)))"
    using mem assms(3) by (rule Error_Joined_sublist)
  ultimately show ?thesis
    by blast
qed




section \<open>Properties of Connect\<close>

lemmas world_ops = record_call_def do_Start_def do_Close_def do_tun_New_def do_tun_Up_def
  do_tun_Close_def do_Add_def do_Delete_def

lemmas connect_defs = Connect_def createXrayProxy_def setupTunnel_def xrayToGatewayRoute_def
  currentGatewayIP_def startDebugging_def world_ops



lemma adds_append: "adds (xs @ ys) = adds xs @ adds ys"
  by (induction xs rule: adds.induct) simp_all

lemma issued_append: "trace w' = trace w @ new \<Longrightarrow> issued w w' = new"
  by (simp add: issued_def)

lemma prefix_adds_take: "prefix (adds (take k evs)) (adds evs)"
proof -
  have "adds evs = adds (take k evs) @ adds (drop k evs)"
    by (metis adds_append append_take_drop_id)
  then show ?thesis
    by (metis prefixI)
qed

lemma Connect_issued_cases:
  assumes "Connect E link (c, w) = (out, c', w')"
  shows "\<exists>new. trace w' = trace w @ new \<and>
           (adds new = [] \<or>
            (\<exists>name. adds new = [tunnelRoute c name]) \<or>
            (\<exists>name exc. adds new = [tunnelRoute c name, exc] \<and> xrayToGatewayRoute c' = Returns exc)) \<and>
           (\<forall>a r. (pipe_Copy a, r) \<in> set new \<longrightarrow> length (adds new) = 2)"
  using assms
  by (auto simp: Connect_def createXrayProxy_def setupTunnel_def xrayToGatewayRoute_def
      currentGatewayIP_def startDebugging_def world_ops tunnelRoute_def Let_def adds_append
      split: option.splits sum.splits outcome.splits prod.splits if_splits)

lemma Connect_success_connected:
  assumes "Connect E link (c, w) = (Returns None, c', w')"
  shows "connected c'"
  using assms
  by (auto simp: Connect_def createXrayProxy_def setupTunnel_def xrayToGatewayRoute_def
      currentGatewayIP_def startDebugging_def world_ops connected_def Let_def
      split: option.splits sum.splits outcome.splits prod.splits if_splits)

lemma Connect_error_cases:
  assumes "Connect E link (c, w) = (Returns (Some e), c', w')"
  shows "\<exists>new. trace w' = trace w @ new \<and>
     (\<forall>ev \<in> set new. fst ev \<noteq> xInst_Close \<and> fst ev \<noteq> tun_Close \<and> fst ev \<noteq> stopTunnel_call \<and>
         (\<forall>ro. fst ev = routes_Delete ro \<longrightarrow> xrayToGatewayRoute c' = Returns ro)) \<and>
     ((\<exists>err. e = Errorf ''create xray core instance: '' err) \<longrightarrow> w' = w) \<and>
     (engine_running w' \<longleftrightarrow> engine_running w \<or> (xInst_Start, None) \<in> set new) \<and>
     ((tun_New, None) \<in> set new \<longrightarrow> tun_dev w' \<noteq> None) \<and>
     (\<forall>ro. (routes_Add ro, None) \<in> set new \<longrightarrow> xrayToGatewayRoute c' \<noteq> Returns ro \<longrightarrow> ro \<in> set (installed w')) \<and>
     \<not> stopTunnel c' = (\<not> stopTunnel c)"
  using assms
  by (auto simp: Connect_def createXrayProxy_def setupTunnel_def xrayToGatewayRoute_def
      currentGatewayIP_def startDebugging_def world_ops Let_def
      split: option.splits sum.splits outcome.splits prod.splits if_splits)

section \<open>Properties of Disconnect\<close>

lemma errors_Join_single: 
  assumes "Some e \<in> set errs"
  shows "\<exists>r. errors_Join errs = Some r \<and> errors_Is r e \<and> sublist (Error e) (Error r)"
  using assms by (rule errors_Join_contains) (simp_all add: errors_Is_refl)

lemma errors_Join_nested:
  assumes "Some e \<in> set inner"
  shows "\<exists>r. errors_Join [x, errors_Join inner] = Some r \<and> errors_Is r e \<and> sublist (Error e) (Error r)"
proof -
  from errors_Join_single [OF assms] obtain r0 where
    r0: "errors_Join inner = Some r0" "errors_Is r0 e" "sublist (Error e) (Error r0)"
    by blast
  have "Some r0 \<in> set [x, errors_Join inner]"
    using r0(1) by simp
  from errors_Join_contains [OF this r0(2) r0(3)] show ?thesis .
qed

lemma do_Close_facts:
  assumes "do_Close E w = (r, w1)"
  shows "trace w1 = trace w @ [(xInst_Close, r)]" "waited w1 = waited w" "pipe_tasks w1 = pipe_tasks w"
  using assms by (auto simp: do_Close_def record_call_def Let_def)

lemma do_tun_Close_facts:
  assumes "do_tun_Close E w = (r, w1)"
  shows "trace w1 = trace w @ [(tun_Close, r)]" "waited w1 = waited w" "pipe_tasks w1 = pipe_tasks w"
  using assms by (auto simp: do_tun_Close_def record_call_def Let_def)

lemma do_Delete_facts:
  assumes "do_Delete E ro w = (r, w1)"
  shows "trace w1 = trace w @ [(routes_Delete ro, r)]" "waited w1 = waited w" "pipe_tasks w1 = pipe_tasks w"
  using assms by (auto simp: do_Delete_def record_call_def Let_def)

lemma stopDebugging_fields:
  "xInst (stopDebugging c) = xInst c" "tunnel (stopDebugging c) = tunnel c"
  "xSrvIP (stopDebugging c) = xSrvIP c" "cfg (stopDebugging c) = cfg c"
  "stopTunnel (stopDebugging c) = stopTunnel c"
  by (simp_all add: stopDebugging_def)

lemma xrayToGatewayRoute_stopDebugging:
  "xrayToGatewayRoute (stopDebugging c) = xrayToGatewayRoute c"
  by (simp add: xrayToGatewayRoute_def currentGatewayIP_def stopDebugging_fields split: option.splits)

lemma Disconnect_shape:
  assumes con: "connected c" and dis: "Disconnect E ctx (c, w) = (out, c', w')"
  shows "\<exists>ro e1 e2 e3 w3 sel t.
      xrayToGatewayRoute c = Returns ro \<and>
      trace w3 = trace w @ [(stopTunnel_call, None), (xInst_Close, e1), (tun_Close, e2), (routes_Delete ro, e3)] \<and>
      waited w3 = waited w \<and> pipe_tasks w3 = pipe_tasks w \<and>
      select_wait E w3 (fst (WithTimeout ctx disconnectTimeout)) = (sel, t) \<and>
      c' = stopDebugging c \<and>
      (case sel of
         case_tunnelStopped tunErr \<Rightarrow>
           out = Returns (errors_Join [tunErr, errors_Join [e1, e2, e3]]) \<and>
           w' = record_call tunnelStopped_recv tunErr
                  (w3\<lparr>pipe_tasks := pipe_tasks w3 - 1, waited := waited w3 + t\<rparr>)
       | case_ctx_Done \<Rightarrow>
           out = Returns (errors_Join [Some (snd (WithTimeout ctx disconnectTimeout)), errors_Join [e1, e2, e3]]) \<and>
           w' = record_call ctx_Done (Some (snd (WithTimeout ctx disconnectTimeout)))
                  (w3\<lparr>waited := waited w3 + t\<rparr>))"
proof -
  from con obtain inst ip where
    st: "stopTunnel c" and xi: "xInst c = Some inst" and ip: "xSrvIP c = Some ip"
    and tn: "tunnel c \<noteq> NilTunnel" "tunnel c \<noteq> NilTunInterface"
    by (auto simp: connected_def)
  define w0 where "w0 = record_call stopTunnel_call None w"
  define ro where "ro = \<lparr>Gateway = currentGatewayIP c, IfName = [], Routes = [ip @ ''/32'']\<rparr>"
  have ro: "xrayToGatewayRoute c = Returns ro"
    by (simp add: xrayToGatewayRoute_def ip ro_def)
  obtain e1 w1 where s1: "do_Close E w0 = (e1, w1)" by (cases "do_Close E w0")
  obtain e2 w2 where s2: "do_tun_Close E w1 = (e2, w2)" by (cases "do_tun_Close E w1")
  obtain e3 w3 where s3: "do_Delete E ro w2 = (e3, w3)" by (cases "do_Delete E ro w2")
  obtain d ctxErr where wt: "WithTimeout ctx disconnectTimeout = (d, ctxErr)"
    by (cases "WithTimeout ctx disconnectTimeout")
  obtain sel t where sw: "select_wait E w3 d = (sel, t)" by (cases "select_wait E w3 d")
  have w0: "trace w0 = trace w @ [(stopTunnel_call, None)]" "waited w0 = waited w" "pipe_tasks w0 = pipe_tasks w"
    by (simp_all add: w0_def record_call_def)
  have tr: "trace w3 = trace w @ [(stopTunnel_call, None), (xInst_Close, e1), (tun_Close, e2), (routes_Delete ro, e3)]"
    using w0(1) do_Close_facts(1) [OF s1] do_tun_Close_facts(1) [OF s2] do_Delete_facts(1) [OF s3]
    by simp
  have wa: "waited w3 = waited w"
    using w0(2) do_Close_facts(2) [OF s1] do_tun_Close_facts(2) [OF s2] do_Delete_facts(2) [OF s3]
    by simp
  have pt: "pipe_tasks w3 = pipe_tasks w"
    using w0(3) do_Close_facts(3) [OF s1] do_tun_Close_facts(3) [OF s2] do_Delete_facts(3) [OF s3]
    by simp
  have unfold: "Disconnect E ctx (c, w) =
      (case sel of
         case_tunnelStopped tunErr \<Rightarrow>
           (Returns (errors_Join [tunErr, errors_Join [e1, e2, e3]]), stopDebugging c,
            record_call tunnelStopped_recv tunErr (w3\<lparr>pipe_tasks := pipe_tasks w3 - 1, waited := waited w3 + t\<rparr>))
       | case_ctx_Done \<Rightarrow>
           (Returns (errors_Join [Some ctxErr, errors_Join [e1, e2, e3]]), stopDebugging c,
            record_call ctx_Done (Some ctxErr) (w3\<lparr>waited := waited w3 + t\<rparr>)))"
    using st xi tn ro s1 s2 s3 wt sw
    by (simp add: Disconnect_def Let_def stopDebugging_fields xrayToGatewayRoute_stopDebugging
        w0_def [symmetric] split: selected.splits)
  show ?thesis
  proof (cases sel)
    case (case_tunnelStopped tunErr)
    with unfold dis ro tr wa pt sw wt show ?thesis
      by (intro exI [of _ ro] exI [of _ e1] exI [of _ e2] exI [of _ e3] exI [of _ w3]
          exI [of _ sel] exI [of _ t]) simp
  next
    case case_ctx_Done
    with unfold dis ro tr wa pt sw wt show ?thesis
      by (intro exI [of _ ro] exI [of _ e1] exI [of _ e2] exI [of _ e3] exI [of _ w3]
          exI [of _ sel] exI [of _ t]) simp
  qed
qed

lemma select_wait_bound: "select_wait E w d = (sel, t) \<Longrightarrow> t \<le> d"
  by (auto simp: select_wait_def split: option.splits if_splits prod.splits)

lemma select_wait_late:
  assumes "\<forall>t tunErr. Copy_result E w = Some (t, tunErr) \<longrightarrow> d < t"
  shows "select_wait E w d = (case_ctx_Done, d)"
  using assms by (auto simp: select_wait_def split: option.splits if_splits prod.splits)

section \<open>Runs in the mocked environment\<close>

lemma digits10_small: "n < 10 \<Longrightarrow> digits10 n = [''0123456789'' ! n]"
  by (subst digits10.simps) simp

lemma digits10_big: "\<not> n < 10 \<Longrightarrow> digits10 n = digits10 (n div 10) @ [''0123456789'' ! (n mod 10)]"
  by (subst digits10.simps) simp

lemma Itoa_49152: "Itoa 49152 = ''49152''"
  by (simp add: Itoa_def digits10_small digits10_big)

lemma TrimSpace_ok_link: "TrimSpace ok_link = ok_link"
  by (simp add: TrimSpace_def ok_link_def isSpace_def)

lemma mock_parse:
  "CreateProtocol mock_env svc ok_link = Inr ok_link"
  "Parse mock_env ok_link = None"
  by (simp_all add: mock_env_def ok_link_def)

lemma mock_results:
  "ConvertToGeneralConfig mock_env p = \<lparr>Address = ''ok.example''\<rparr>"
  "MakeInstance mock_env svc p = None"
  "ResolveIPAddr mock_env host = Inr ''203.0.113.7''"
  "Start_result mock_env w = None"
  "Close_result mock_env w = None"
  "tun_New_result mock_env w = Inr ''utun7''"
  "tun_Up_result mock_env w = None"
  "tun_Close_result mock_env w = None"
  "Add_result mock_env w ro = None"
  "Delete_result mock_env w ro = (if ro \<in> set (installed w) then None else Some (New ''no such route''))"
  "Copy_result mock_env w = Some (5, None)"
  by (simp_all add: mock_env_def)

lemma Connect_mock: "Connect mock_env ok_link (client0, world0) = (Returns None, client1, world1)"
  by (simp add: connect_defs TrimSpace_ok_link mock_parse mock_results client0_def world0_def
      client1_def world1_def trace1_def mock_service_def mock_tunnel_route_def
      mock_exception_route_def xRayLogLevel_level_handler LevelInfo_def Itoa_49152
      Proxy_String_def DefaultRoutesToTUN_def Let_def)

lemmas disconnect_defs = Disconnect_def stopDebugging_def xrayToGatewayRoute_def
  currentGatewayIP_def select_wait_def WithTimeout_def errors_Join_def List.map_filter_def
  disconnectTimeout_def world_ops

lemma Disconnect_mock: "Disconnect mock_env None (client1, world1) = (Returns None, client1, world2)"
  by (simp add: disconnect_defs mock_results client0_def client1_def world1_def world2_def
      trace1_def mock_tunnel_route_def mock_exception_route_def Let_def)

section \<open>The order of the routes in Connect\<close>

text \<open>
  The state in which the claim of C1 fails: in the mocked run, after the fourth call of
  \<open>Connect\<close> the tunnel routes \<open>0.0.0.0/1\<close> and \<open>128.0.0.0/1\<close> have been added through
  the device and the exception route has not; it is added two calls later.
\<close>

theorem Connect_adds_tunnel_routes_first:
  "Connect mock_env ok_link (client0, world0) = (Returns None, client1, world1) \<and>
   take 4 (trace world1) =
     [(xInst_Start, None), (tun_New, None), (tun_Up, None), (routes_Add mock_tunnel_route, None)] \<and>
   (routes_Add mock_exception_route, None) \<notin> set (take 4 (trace world1)) \<and>
   adds (trace world1) = [mock_tunnel_route, mock_exception_route]"
  by (simp add: Connect_mock world1_def trace1_def mock_tunnel_route_def mock_exception_route_def)

text \<open>
  C1, as the code has it. \<open>Connect\<close> adds the tunnel routes first, inside
  \<open>setupTunnel\<close>, and the gateway-exception route after them: at every point of every
  execution the routes added so far are none, the tunnel routes alone, or the tunnel
  routes followed by the exception route; and the pipe is started only once both have
  been added.
\<close>

theorem Connect_routes_order:
  assumes "Connect E link (c, w) = (out, c', w')"
  shows "trace w' = trace w @ issued w w' \<and>
         (\<forall>k. adds (take k (issued w w')) = [] \<or>
              (\<exists>name. adds (take k (issued w w')) = [tunnelRoute c name]) \<or>
              (\<exists>name exc. adds (take k (issued w w')) = [tunnelRoute c name, exc] \<and>
                           xrayToGatewayRoute c' = Returns exc)) \<and>
         (\<forall>a r. (pipe_Copy a, r) \<in> set (issued w w') \<longrightarrow> length (adds (issued w w')) = 2)"
proof -
  from Connect_issued_cases [OF assms] obtain new where
    tr: "trace w' = trace w @ new"
    and sh: "adds new = [] \<or> (\<exists>name. adds new = [tunnelRoute c name]) \<or>
            (\<exists>name exc. adds new = [tunnelRoute c name, exc] \<and> xrayToGatewayRoute c' = Returns exc)"
    and pc: "\<forall>a r. (pipe_Copy a, r) \<in> set new \<longrightarrow> length (adds new) = 2"
    by blast
  have iss: "issued w w' = new"
    using tr by (rule issued_append)
  have "adds (take k new) = [] \<or> (\<exists>name. adds (take k new) = [tunnelRoute c name]) \<or>
        (\<exists>name exc. adds (take k new) = [tunnelRoute c name, exc] \<and> xrayToGatewayRoute c' = Returns exc)"
    for k
  proof -
    have p: "prefix (adds (take k new)) (adds new)"
      by (rule prefix_adds_take)
    from sh show ?thesis
    proof (elim disjE exE conjE)
      assume "adds new = []"
      with p show ?thesis by simp
    next
      fix name assume "adds new = [tunnelRoute c name]"
      with p show ?thesis by (auto simp: prefix_Cons)
    next
      fix name exc assume "adds new = [tunnelRoute c name, exc]" "xrayToGatewayRoute c' = Returns exc"
      with p show ?thesis by (auto simp: prefix_Cons)
    qed
  qed
  with tr pc iss show ?thesis
    by simp
qed

theorem Connect_routes_order_witness:
  "Connect mock_env ok_link (client0, world0) = (Returns None, client1, world1) \<and>
   trace world1 = trace world0 @ issued world0 world1 \<and>
   adds (take 4 (issued world0 world1)) = [tunnelRoute client0 ''utun7''] \<and>
   adds (take 6 (issued world0 world1)) = [tunnelRoute client0 ''utun7'', mock_exception_route] \<and>
   xrayToGatewayRoute client1 = Returns mock_exception_route \<and>
   (pipe_Copy ''127.0.0.1:49152'', None) \<in> set (issued world0 world1) \<and>
   length (adds (issued world0 world1)) = 2"
proof -
  have run: "trace world1 = trace world0 @ issued world0 world1 \<and>
     adds (take 4 (issued world0 world1)) = [tunnelRoute client0 ''utun7''] \<and>
     adds (take 6 (issued world0 world1)) = [tunnelRoute client0 ''utun7'', mock_exception_route] \<and>
     xrayToGatewayRoute client1 = Returns mock_exception_route \<and>
     (pipe_Copy ''127.0.0.1:49152'', None) \<in> set (issued world0 world1) \<and>
     length (adds (issued world0 world1)) = 2"
    by (simp add: issued_def world0_def world1_def trace1_def tunnelRoute_def
        client0_def client1_def mock_tunnel_route_def mock_exception_route_def
        xrayToGatewayRoute_def currentGatewayIP_def DefaultRoutesToTUN_def)
  from Connect_routes_order [OF Connect_mock] Connect_mock run show ?thesis
    by (intro conjI) (elim conjE, assumption)+
qed

section \<open>Connect returning an error\<close>

lemma mock_no_exception_results:
  "CreateProtocol mock_env_no_exception svc ok_link = Inr ok_link"
  "Parse mock_env_no_exception ok_link = None"
  "ConvertToGeneralConfig mock_env_no_exception p = \<lparr>Address = ''ok.example''\<rparr>"
  "MakeInstance mock_env_no_exception svc p = None"
  "ResolveIPAddr mock_env_no_exception host = Inr ''203.0.113.7''"
  "Start_result mock_env_no_exception w = None"
  "tun_New_result mock_env_no_exception w = Inr ''utun7''"
  "tun_Up_result mock_env_no_exception w = None"
  "Add_result mock_env_no_exception w ro = (if IfName ro = [] then Some (New ''network is unreachable'') else None)"
  "Delete_result mock_env_no_exception w ro = (if ro \<in> set (installed w) then None else Some (New ''no such route''))"
  by (simp_all add: mock_env_no_exception_def mock_env_def ok_link_def)

lemma Connect_mock_no_exception:
  "fst (Connect mock_env_no_exception ok_link (client0, world0))
     = Returns (Some (Errorf ''add xray server route exception: '' (New ''network is unreachable'')))"
  "engine_running (snd (snd (Connect mock_env_no_exception ok_link (client0, world0))))"
  "tun_dev (snd (snd (Connect mock_env_no_exception ok_link (client0, world0)))) = Some ''utun7''"
  "installed (snd (snd (Connect mock_env_no_exception ok_link (client0, world0)))) = [mock_tunnel_route]"
  "map fst (trace (snd (snd (Connect mock_env_no_exception ok_link (client0, world0)))))
     = [xInst_Start, tun_New, tun_Up, routes_Add mock_tunnel_route,
        routes_Delete mock_exception_route, routes_Add mock_exception_route]"
  by (simp_all add: connect_defs TrimSpace_ok_link mock_no_exception_results client0_def world0_def
      mock_tunnel_route_def mock_exception_route_def DefaultRoutesToTUN_def Let_def)

text \<open>
  The state in which the claim of C2 fails: the routing table refuses the exception
  route, \<open>Connect\<close> returns the error, and the engine is still running, the TUN device
  still exists and the tunnel routes are still installed. No call of the run closes or
  deletes what the run has set up.
\<close>

theorem Connect_error_leaves_state:
  "os_clean world0 \<and>
   fst (Connect mock_env_no_exception ok_link (client0, world0))
     = Returns (Some (Errorf ''add xray server route exception: '' (New ''network is unreachable''))) \<and>
   \<not> os_clean (snd (snd (Connect mock_env_no_exception ok_link (client0, world0)))) \<and>
   engine_running (snd (snd (Connect mock_env_no_exception ok_link (client0, world0)))) \<and>
   tun_dev (snd (snd (Connect mock_env_no_exception ok_link (client0, world0)))) = Some ''utun7'' \<and>
   installed (snd (snd (Connect mock_env_no_exception ok_link (client0, world0)))) = [mock_tunnel_route] \<and>
   map fst (trace (snd (snd (Connect mock_env_no_exception ok_link (client0, world0)))))
     = [xInst_Start, tun_New, tun_Up, routes_Add mock_tunnel_route,
        routes_Delete mock_exception_route, routes_Add mock_exception_route]"
  by (simp add: Connect_mock_no_exception os_clean_def) (simp add: world0_def)

text \<open>
  C2, as the code has it. A \<open>Connect\<close> that returns an error has rolled nothing back:
  it has made no call to close the engine or the TUN device, and the only route it may
  have deleted is the exception route, in the clean-up that precedes adding it. When
  the error comes from building the engine from the link, the world is untouched.
  Otherwise what the call has set up is still there: the engine runs if it ran before
  or was started by the call, the device the call has created exists, and every route
  it has added (the exception route apart) is installed.
\<close>

theorem Connect_error_no_rollback:
  assumes "Connect E link (c, w) = (Returns (Some e), c', w')"
  shows "(\<forall>ev \<in> set (issued w w').
            fst ev \<noteq> xInst_Close \<and> fst ev \<noteq> tun_Close \<and>
            (\<forall>ro. fst ev = routes_Delete ro \<longrightarrow> xrayToGatewayRoute c' = Returns ro)) \<and>
         ((\<exists>err. e = Errorf ''create xray core instance: '' err) \<longrightarrow> w' = w) \<and>
         (engine_running w' \<longleftrightarrow> engine_running w \<or> (xInst_Start, None) \<in> set (issued w w')) \<and>
         ((tun_New, None) \<in> set (issued w w') \<longrightarrow> tun_dev w' \<noteq> None) \<and>
         (\<forall>ro. (routes_Add ro, None) \<in> set (issued w w') \<longrightarrow>
               xrayToGatewayRoute c' \<noteq> Returns ro \<longrightarrow> ro \<in> set (installed w'))"
proof -
  from Connect_error_cases [OF assms] obtain new where
    tr: "trace w' = trace w @ new" and
    rest: "(\<forall>ev \<in> set new. fst ev \<noteq> xInst_Close \<and> fst ev \<noteq> tun_Close \<and> fst ev \<noteq> stopTunnel_call \<and>
         (\<forall>ro. fst ev = routes_Delete ro \<longrightarrow> xrayToGatewayRoute c' = Returns ro)) \<and>
     ((\<exists>err. e = Errorf ''create xray core instance: '' err) \<longrightarrow> w' = w) \<and>
     (engine_running w' \<longleftrightarrow> engine_running w \<or> (xInst_Start, None) \<in> set new) \<and>
     ((tun_New, None) \<in> set new \<longrightarrow> tun_dev w' \<noteq> None) \<and>
     (\<forall>ro. (routes_Add ro, None) \<in> set new \<longrightarrow> xrayToGatewayRoute c' \<noteq> Returns ro \<longrightarrow> ro \<in> set (installed w'))"
    by blast
  have "issued w w' = new"
    using tr by (rule issued_append)
  with rest show ?thesis
    by simp
qed

theorem Connect_error_no_rollback_witness:
  "Connect mock_env_no_exception ok_link (client0, world0)
     = (Returns (Some (Errorf ''add xray server route exception: '' (New ''network is unreachable''))),
        snd (Connect mock_env_no_exception ok_link (client0, world0))) \<and>
   engine_running (snd (snd (Connect mock_env_no_exception ok_link (client0, world0)))) \<and>
   tun_dev (snd (snd (Connect mock_env_no_exception ok_link (client0, world0)))) = Some ''utun7'' \<and>
   installed (snd (snd (Connect mock_env_no_exception ok_link (client0, world0)))) = [mock_tunnel_route]"
proof -
  have run: "Connect mock_env_no_exception ok_link (client0, world0)
     = (Returns (Some (Errorf ''add xray server route exception: '' (New ''network is unreachable''))),
        fst (snd (Connect mock_env_no_exception ok_link (client0, world0))),
        snd (snd (Connect mock_env_no_exception ok_link (client0, world0))))"
    using Connect_mock_no_exception(1) by (metis prod.collapse)
  have run': "Connect mock_env_no_exception ok_link (client0, world0)
     = (Returns (Some (Errorf ''add xray server route exception: '' (New ''network is unreachable''))),
        snd (Connect mock_env_no_exception ok_link (client0, world0)))"
    using Connect_mock_no_exception(1) by (metis prod.collapse)
  from Connect_error_no_rollback [OF run] run' Connect_mock_no_exception(2,3,4)
  show ?thesis
    by (intro conjI) (elim conjE, assumption)+
qed

section \<open>Disconnect: errors and deadline\<close>

lemma effective_deadline_WithTimeout:
  "fst (WithTimeout ctx disconnectTimeout) = effective_deadline ctx"
  by (auto simp: WithTimeout_def effective_deadline_def split: option.splits)

lemma WithTimeout_DeadlineExceeded:
  assumes "ctx = None \<or> (\<exists>t. ctx = Some (t, DeadlineExceeded))"
  shows "snd (WithTimeout ctx disconnectTimeout) = DeadlineExceeded"
  using assms by (auto simp: WithTimeout_def)

lemma connected_client1: "connected client1"
  by (simp add: connected_def client1_def)

text \<open>
  C4. \<open>Disconnect\<close> on a connected client calls \<open>xInst.Close\<close>, \<open>tunnel.Close\<close> and
  \<open>routes.Delete\<close> of the exception route, each of them whatever the others return,
  and then receives from \<open>tunnelStopped\<close> or sees the context done. Every error these
  calls return, and the error received from the pipe, is in the error \<open>Disconnect\<close>
  returns: \<open>errors.Is\<close> finds it and its message is part of the message.
\<close>

theorem Disconnect_attempts_all_and_joins:
  assumes "connected c" and "Disconnect E ctx (c, w) = (out, c', w')"
  shows "\<exists>ro e1 e2 e3 cl e4 res.
           xrayToGatewayRoute c = Returns ro \<and>
           issued w w' = [(stopTunnel_call, None), (xInst_Close, e1), (tun_Close, e2),
                          (routes_Delete ro, e3), (cl, e4)] \<and>
           (cl = tunnelStopped_recv \<or> cl = ctx_Done) \<and>
           out = Returns res \<and>
           (\<forall>e. Some e \<in> {e1, e2, e3, e4} \<longrightarrow>
                (\<exists>r. res = Some r \<and> errors_Is r e \<and> sublist (Error e) (Error r)))"
proof -
  from Disconnect_shape [OF assms] obtain ro e1 e2 e3 w3 sel t where
    ro: "xrayToGatewayRoute c = Returns ro" and
    tr: "trace w3 = trace w @ [(stopTunnel_call, None), (xInst_Close, e1), (tun_Close, e2),
                               (routes_Delete ro, e3)]" and
    cs: "(case sel of
         case_tunnelStopped tunErr \<Rightarrow>
           out = Returns (errors_Join [tunErr, errors_Join [e1, e2, e3]]) \<and>
           w' = record_call tunnelStopped_recv tunErr
                  (w3\<lparr>pipe_tasks := pipe_tasks w3 - 1, waited := waited w3 + t\<rparr>)
       | case_ctx_Done \<Rightarrow>
           out = Returns (errors_Join [Some (snd (WithTimeout ctx disconnectTimeout)), errors_Join [e1, e2, e3]]) \<and>
           w' = record_call ctx_Done (Some (snd (WithTimeout ctx disconnectTimeout)))
                  (w3\<lparr>waited := waited w3 + t\<rparr>))"
    by blast
  obtain cl e4 where
    out: "out = Returns (errors_Join [e4, errors_Join [e1, e2, e3]])" and
    w': "trace w' = trace w3 @ [(cl, e4)]" and
    cl: "cl = tunnelStopped_recv \<or> cl = ctx_Done"
  proof (cases sel)
    case (case_tunnelStopped tunErr)
    with cs that [of tunErr tunnelStopped_recv] show ?thesis
      by (simp add: record_call_def)
  next
    case case_ctx_Done
    with cs that [of "Some (snd (WithTimeout ctx disconnectTimeout))" ctx_Done] show ?thesis
      by (simp add: record_call_def)
  qed
  have iss: "issued w w' = [(stopTunnel_call, None), (xInst_Close, e1), (tun_Close, e2),
                            (routes_Delete ro, e3), (cl, e4)]"
    using tr w' by (simp add: issued_def)
  have contained: "\<exists>r. errors_Join [e4, errors_Join [e1, e2, e3]] = Some r \<and> errors_Is r e \<and>
                       sublist (Error e) (Error r)"
    if "Some e \<in> {e1, e2, e3, e4}" for e
  proof (cases "Some e = e4")
    case True
    then have "Some e \<in> set [e4, errors_Join [e1, e2, e3]]"
      by simp
    then show ?thesis
      by (rule errors_Join_single)
  next
    case False
    with that have "Some e \<in> set [e1, e2, e3]"
      by auto
    then show ?thesis
      by (rule errors_Join_nested)
  qed
  from ro iss cl out contained show ?thesis
    by blast
qed

lemma mock_failing_results:
  "Close_result mock_env_failing w = Some (New ''instance close err'')"
  "tun_Close_result mock_env_failing w = Some (New ''tun close err'')"
  "Delete_result mock_env_failing w ro = (if ro \<in> set (installed w) then None else Some (New ''no such route''))"
  "Copy_result mock_env_failing w = Some (5, Some (New ''stop err''))"
  by (simp_all add: mock_env_failing_def mock_env_def)

lemma Disconnect_mock_failing:
  "fst (Disconnect mock_env_failing None (client1, world1))
     = Returns (Some (Joined [New ''stop err'',
                              Joined [New ''instance close err'', New ''tun close err'']]))"
  by (simp add: disconnect_defs mock_failing_results client0_def client1_def world1_def
      trace1_def mock_tunnel_route_def mock_exception_route_def Let_def)

lemma Disconnect_mock_failing_issued:
  "issued world1 (snd (snd (Disconnect mock_env_failing None (client1, world1))))
     = [(stopTunnel_call, None), (xInst_Close, Some (New ''instance close err'')),
        (tun_Close, Some (New ''tun close err'')), (routes_Delete mock_exception_route, None),
        (tunnelStopped_recv, Some (New ''stop err''))]"
  by (simp add: disconnect_defs issued_def mock_failing_results client0_def client1_def world1_def
      trace1_def mock_tunnel_route_def mock_exception_route_def Let_def)

theorem Disconnect_attempts_all_and_joins_witness:
  "connected client1 \<and>
   fst (Disconnect mock_env_failing None (client1, world1))
     = Returns (Some (Joined [New ''stop err'',
                              Joined [New ''instance close err'', New ''tun close err'']])) \<and>
   issued world1 (snd (snd (Disconnect mock_env_failing None (client1, world1))))
     = [(stopTunnel_call, None), (xInst_Close, Some (New ''instance close err'')),
        (tun_Close, Some (New ''tun close err'')), (routes_Delete mock_exception_route, None),
        (tunnelStopped_recv, Some (New ''stop err''))] \<and>
   ErrorContains (Some (Joined [New ''stop err'',
                                Joined [New ''instance close err'', New ''tun close err'']]))
     ''instance close err'' \<and>
   ErrorContains (Some (Joined [New ''stop err'',
                                Joined [New ''instance close err'', New ''tun close err'']]))
     ''tun close err'' \<and>
   ErrorContains (Some (Joined [New ''stop err'',
                                Joined [New ''instance close err'', New ''tun close err'']]))
     ''stop err''"
proof -
  let ?J = "Joined [New ''stop err'', Joined [New ''instance close err'', New ''tun close err'']]"
  have run: "Disconnect mock_env_failing None (client1, world1)
     = (Returns (Some ?J),
        fst (snd (Disconnect mock_env_failing None (client1, world1))),
        snd (snd (Disconnect mock_env_failing None (client1, world1))))"
    using Disconnect_mock_failing by (metis prod.collapse)
  from Disconnect_attempts_all_and_joins [OF connected_client1 run]
  obtain ro e1 e2 e3 cl e4 res where
    iss: "issued world1 (snd (snd (Disconnect mock_env_failing None (client1, world1))))
            = [(stopTunnel_call, None), (xInst_Close, e1), (tun_Close, e2),
               (routes_Delete ro, e3), (cl, e4)]" and
    res: "Returns (Some ?J) = Returns res" and
    all: "\<forall>e. Some e \<in> {e1, e2, e3, e4} \<longrightarrow>
            (\<exists>r. res = Some r \<and> errors_Is r e \<and> sublist (Error e) (Error r))"
    by blast
  from iss have e: "e1 = Some (New ''instance close err'')" "e2 = Some (New ''tun close err'')"
      "e4 = Some (New ''stop err'')"
    by (simp_all add: Disconnect_mock_failing_issued)
  from res have r: "res = Some ?J"
    by simp
  have c: "sublist (Error x) (Error ?J)" if "Some x \<in> {e1, e2, e3, e4}" for x
    using all that r by auto
  have "sublist (Error (New ''instance close err'')) (Error ?J)"
    by (rule c) (simp add: e)
  moreover have "sublist (Error (New ''tun close err'')) (Error ?J)"
    by (rule c) (simp add: e)
  moreover have "sublist (Error (New ''stop err'')) (Error ?J)"
    by (rule c) (simp add: e)
  ultimately show ?thesis
    using connected_client1 Disconnect_mock_failing Disconnect_mock_failing_issued
    by (simp add: ErrorContains_def del: Error.simps sublist_code) (simp del: sublist_code)
qed

text \<open>
  C5. \<open>Disconnect\<close> waits for the pipe no longer than the effective deadline, the
  caller's deadline capped by \<open>disconnectTimeout\<close> (30 s). When the pipe does not
  signal before that deadline, \<open>Disconnect\<close> returns at the deadline, without having
  received from \<open>tunnelStopped\<close>, and the error it returns joins \<open>DeadlineExceeded\<close>
  with the errors of the engine, the device and the route deletion.
\<close>

theorem Disconnect_deadline:
  assumes "connected c"
      and "ctx = None \<or> (\<exists>t. ctx = Some (t, DeadlineExceeded))"
      and "Disconnect E ctx (c, w) = (out, c', w')"
  shows "waited w' \<le> waited w + effective_deadline ctx \<and>
         ((\<forall>w1 t tunErr. Copy_result E w1 = Some (t, tunErr) \<longrightarrow> effective_deadline ctx < t) \<longrightarrow>
            (\<exists>ro e1 e2 e3 r.
               issued w w' = [(stopTunnel_call, None), (xInst_Close, e1), (tun_Close, e2),
                              (routes_Delete ro, e3), (ctx_Done, Some DeadlineExceeded)] \<and>
               out = Returns (Some r) \<and>
               Some r = errors_Join [Some DeadlineExceeded, errors_Join [e1, e2, e3]] \<and>
               errors_Is r DeadlineExceeded \<and>
               waited w' = waited w + effective_deadline ctx \<and>
               pipe_tasks w' = pipe_tasks w))"
proof -
  from Disconnect_shape [OF assms(1) assms(3)] obtain ro e1 e2 e3 w3 sel t where
    tr: "trace w3 = trace w @ [(stopTunnel_call, None), (xInst_Close, e1), (tun_Close, e2),
                               (routes_Delete ro, e3)]" and
    wa: "waited w3 = waited w" and pt: "pipe_tasks w3 = pipe_tasks w" and
    sw: "select_wait E w3 (fst (WithTimeout ctx disconnectTimeout)) = (sel, t)" and
    cs: "(case sel of
         case_tunnelStopped tunErr \<Rightarrow>
           out = Returns (errors_Join [tunErr, errors_Join [e1, e2, e3]]) \<and>
           w' = record_call tunnelStopped_recv tunErr
                  (w3\<lparr>pipe_tasks := pipe_tasks w3 - 1, waited := waited w3 + t\<rparr>)
       | case_ctx_Done \<Rightarrow>
           out = Returns (errors_Join [Some (snd (WithTimeout ctx disconnectTimeout)), errors_Join [e1, e2, e3]]) \<and>
           w' = record_call ctx_Done (Some (snd (WithTimeout ctx disconnectTimeout)))
                  (w3\<lparr>waited := waited w3 + t\<rparr>))"
    by blast
  have sw': "select_wait E w3 (effective_deadline ctx) = (sel, t)"
    using sw by (simp add: effective_deadline_WithTimeout)
  have de: "snd (WithTimeout ctx disconnectTimeout) = DeadlineExceeded"
    using assms(2) by (rule WithTimeout_DeadlineExceeded)
  have "waited w' = waited w + t"
    using cs wa by (cases sel) (simp_all add: record_call_def)
  moreover have "t \<le> effective_deadline ctx"
    using sw' by (rule select_wait_bound)
  ultimately have bound: "waited w' \<le> waited w + effective_deadline ctx"
    by simp
  have late: "\<exists>ro e1 e2 e3 r.
               issued w w' = [(stopTunnel_call, None), (xInst_Close, e1), (tun_Close, e2),
                              (routes_Delete ro, e3), (ctx_Done, Some DeadlineExceeded)] \<and>
               out = Returns (Some r) \<and>
               Some r = errors_Join [Some DeadlineExceeded, errors_Join [e1, e2, e3]] \<and>
               errors_Is r DeadlineExceeded \<and>
               waited w' = waited w + effective_deadline ctx \<and>
               pipe_tasks w' = pipe_tasks w"
    if never: "\<forall>w1 t tunErr. Copy_result E w1 = Some (t, tunErr) \<longrightarrow> effective_deadline ctx < t"
  proof -
    from never have "\<forall>t tunErr. Copy_result E w3 = Some (t, tunErr) \<longrightarrow> effective_deadline ctx < t"
      by blast
    then have "select_wait E w3 (effective_deadline ctx) = (case_ctx_Done, effective_deadline ctx)"
      by (rule select_wait_late)
    with sw' have sel: "sel = case_ctx_Done" and t: "t = effective_deadline ctx"
      by simp_all
    from cs sel de have out: "out = Returns (errors_Join [Some DeadlineExceeded, errors_Join [e1, e2, e3]])"
      and w': "w' = record_call ctx_Done (Some DeadlineExceeded) (w3\<lparr>waited := waited w3 + t\<rparr>)"
      by simp_all
    have "Some DeadlineExceeded \<in> set [Some DeadlineExceeded, errors_Join [e1, e2, e3]]"
      by simp
    from errors_Join_single [OF this] obtain r where
      r: "errors_Join [Some DeadlineExceeded, errors_Join [e1, e2, e3]] = Some r"
         "errors_Is r DeadlineExceeded"
      by blast
    have "issued w w' = [(stopTunnel_call, None), (xInst_Close, e1), (tun_Close, e2),
                         (routes_Delete ro, e3), (ctx_Done, Some DeadlineExceeded)]"
      using tr w' by (simp add: issued_def record_call_def)
    moreover have "waited w' = waited w + effective_deadline ctx" "pipe_tasks w' = pipe_tasks w"
      using w' wa pt t by (simp_all add: record_call_def)
    ultimately show ?thesis
      using out r by auto
  qed
  from bound late show ?thesis
    by blast
qed

lemma mock_stuck_results:
  "Close_result mock_env_stuck_pipe w = None"
  "tun_Close_result mock_env_stuck_pipe w = None"
  "Delete_result mock_env_stuck_pipe w ro = (if ro \<in> set (installed w) then None else Some (New ''no such route''))"
  "Copy_result mock_env_stuck_pipe w = None"
  by (simp_all add: mock_env_stuck_pipe_def mock_env_def)

lemma Disconnect_mock_stuck:
  "fst (Disconnect mock_env_stuck_pipe (Some (10000000, DeadlineExceeded)) (client1, world1))
     = Returns (Some (Joined [DeadlineExceeded]))"
  "waited (snd (snd (Disconnect mock_env_stuck_pipe (Some (10000000, DeadlineExceeded)) (client1, world1))))
     = 10000000"
  by (simp_all add: disconnect_defs mock_stuck_results client0_def client1_def world1_def
      trace1_def mock_tunnel_route_def mock_exception_route_def Let_def)

theorem Disconnect_deadline_witness:
  "connected client1 \<and>
   effective_deadline (Some (10000000, DeadlineExceeded)) = 10000000 \<and>
   (\<forall>w1. Copy_result mock_env_stuck_pipe w1 = None) \<and>
   fst (Disconnect mock_env_stuck_pipe (Some (10000000, DeadlineExceeded)) (client1, world1))
     = Returns (Some (Joined [DeadlineExceeded])) \<and>
   waited (snd (snd (Disconnect mock_env_stuck_pipe (Some (10000000, DeadlineExceeded)) (client1, world1))))
     = waited world1 + 10000000 \<and>
   pipe_tasks (snd (snd (Disconnect mock_env_stuck_pipe (Some (10000000, DeadlineExceeded)) (client1, world1))))
     = pipe_tasks world1"
proof -
  have ctx: "Some (10000000 :: nat, DeadlineExceeded) = None \<or>
      (\<exists>t. Some (10000000 :: nat, DeadlineExceeded) = Some (t, DeadlineExceeded))"
    by simp
  have run: "Disconnect mock_env_stuck_pipe (Some (10000000, DeadlineExceeded)) (client1, world1)
     = (Returns (Some (Joined [DeadlineExceeded])),
        fst (snd (Disconnect mock_env_stuck_pipe (Some (10000000, DeadlineExceeded)) (client1, world1))),
        snd (snd (Disconnect mock_env_stuck_pipe (Some (10000000, DeadlineExceeded)) (client1, world1))))"
    using Disconnect_mock_stuck(1) by (metis prod.collapse)
  have ed: "effective_deadline (Some (10000000, DeadlineExceeded)) = 10000000"
    by (simp add: effective_deadline_def disconnectTimeout_def)
  have none: "\<forall>w1. Copy_result mock_env_stuck_pipe w1 = None"
    by (simp add: mock_stuck_results)
  then have never: "\<forall>w1 t tunErr. Copy_result mock_env_stuck_pipe w1 = Some (t, tunErr) \<longrightarrow>
        effective_deadline (Some (10000000, DeadlineExceeded)) < t"
    by simp
  from Disconnect_deadline [OF connected_client1 ctx run] never
  have "waited (snd (snd (Disconnect mock_env_stuck_pipe (Some (10000000, DeadlineExceeded)) (client1, world1))))
          = waited world1 + effective_deadline (Some (10000000, DeadlineExceeded))"
    and "pipe_tasks (snd (snd (Disconnect mock_env_stuck_pipe (Some (10000000, DeadlineExceeded)) (client1, world1))))
          = pipe_tasks world1"
    by blast+
  with connected_client1 ed none Disconnect_mock_stuck(1) show ?thesis
    by simp
qed

section \<open>Disconnect called again\<close>

lemma Disconnect_keeps_stopTunnel:
  assumes "Disconnect E ctx (c, w) = (out, c', w')"
  shows "stopTunnel c' = stopTunnel c"
  using assms
  by (auto simp: Disconnect_def Let_def stopDebugging_fields
      split: option.splits prod.splits if_splits outcome.splits selected.splits)

text \<open>
  C3. After a successful \<open>Connect\<close>, only the first \<open>Disconnect\<close> is to do the
  teardown. \<open>Disconnect\<close> never resets \<open>stopTunnel\<close>, the field its guard reads: in
  the mocked run the first \<open>Disconnect\<close> succeeds, and the second one cancels, closes
  the engine and the device and deletes the route again, then waits the whole timeout
  for a pipe that has already reported, and returns \<open>DeadlineExceeded\<close>.
\<close>

theorem Disconnect_twice_repeats_teardown:
  "Connect mock_env ok_link (client0, world0) = (Returns None, client1, world1) \<and>
   Disconnect mock_env None (client1, world1) = (Returns None, client1, world2) \<and>
   fst (Disconnect mock_env None (client1, world2))
     = Returns (Some (Joined [DeadlineExceeded, Joined [New ''no such route'']])) \<and>
   issued world2 (snd (snd (Disconnect mock_env None (client1, world2))))
     = [(stopTunnel_call, None), (xInst_Close, None), (tun_Close, None),
        (routes_Delete mock_exception_route, Some (New ''no such route'')),
        (ctx_Done, Some DeadlineExceeded)] \<and>
   waited (snd (snd (Disconnect mock_env None (client1, world2)))) = waited world2 + disconnectTimeout"
  by (simp add: Connect_mock Disconnect_mock)
     (simp add: disconnect_defs issued_def mock_results client0_def client1_def world2_def
      trace1_def mock_tunnel_route_def mock_exception_route_def Let_def)

end
